theory Spec2Isabelle
  imports Complex_Main
begin

section \<open>Data model of the client (types/api.types.ts)\<close>

text \<open>
  A JavaScript \<open>number\<close> that the store only carries around is modelled as a rational;
  \<open>null\<close> and an absent optional field are \<open>None\<close>.
\<close>

type_synonym number = rat

datatype ChartType = LINE | CUMULATIVE

text \<open>\<open>SeriesData\<close>: \<open>count_stat\<close> is the per-row flag the specification calls \<open>defined_mask\<close>.\<close>

record SeriesData =
  name :: string
  x_values :: "number list"
  y_values :: "number option list"
  count_stat :: "bool list"
  color :: "string option"
  visible :: bool

text \<open>
  \<open>StatisticsData\<close>: the interface declares \<open>number[]\<close>; the values arrive as JSON from the
  server, where a slot without data is \<open>null\<close>, so a slot is an optional number here.
\<close>

record StatisticsData =
  p10 :: "number option list"
  p50 :: "number option list"
  p90 :: "number option list"

record ProcessedData =
  session_id :: string
  series :: "SeriesData list"
  statistics :: StatisticsData
  original_filename :: string
  created_at :: string

record SeriesConfig =
  sc_name :: string
  sc_visible :: bool
  sc_color :: "string option"

record ChartConfig =
  cc_session_id :: string
  chart_type :: ChartType
  show_legend :: bool
  show_defined_points :: bool
  show_p10 :: bool
  show_p50 :: bool
  show_p90 :: bool
  series_config :: "SeriesConfig list option"

record UploadResponse =
  ur_session_id :: string
  ur_message :: string
  ur_series_count :: number
  ur_total_rows :: number
  ur_original_filename :: string

section \<open>Session slice (store/slices/sessionSlice.ts)\<close>

record SessionState =
  sessionId :: "string option"
  processedData :: "ProcessedData option"
  isUploading :: bool
  uploadError :: "string option"

definition initialState :: SessionState where
  "initialState =
     \<lparr>sessionId = None, processedData = None, isUploading = False, uploadError = None\<rparr>"

text \<open>
  \<open>Array.prototype.find\<close> returns the first element satisfying the predicate, a reference
  into the array; the reducers then assign one field of that element. The model keeps the
  position of that element, so that the assignment is a list update at that position.
\<close>

fun find_first :: "('a \<Rightarrow> bool) \<Rightarrow> 'a list \<Rightarrow> nat option" where
  "find_first P [] = None"
| "find_first P (x # xs) =
     (if P x then Some 0
      else (case find_first P xs of None \<Rightarrow> None | Some i \<Rightarrow> Some (Suc i)))"

definition setSessionId :: "SessionState \<Rightarrow> string option \<Rightarrow> SessionState" where
  "setSessionId state payload = state\<lparr>sessionId := payload\<rparr>"

definition setProcessedData :: "SessionState \<Rightarrow> ProcessedData option \<Rightarrow> SessionState" where
  "setProcessedData state payload = state\<lparr>processedData := payload\<rparr>"

definition updateSeriesVisibility :: "SessionState \<Rightarrow> string \<Rightarrow> bool \<Rightarrow> SessionState" where
  "updateSeriesVisibility state seriesName vis =
     (case processedData state of
        None \<Rightarrow> state
      | Some pd \<Rightarrow>
          (case find_first (\<lambda>s. name s = seriesName) (series pd) of
             None \<Rightarrow> state
           | Some i \<Rightarrow>
               state\<lparr>processedData :=
                 Some (pd\<lparr>series := (series pd)[i := (series pd ! i)\<lparr>visible := vis\<rparr>]\<rparr>)\<rparr>))"

definition updateSeriesColor :: "SessionState \<Rightarrow> string \<Rightarrow> string \<Rightarrow> SessionState" where
  "updateSeriesColor state seriesName col =
     (case processedData state of
        None \<Rightarrow> state
      | Some pd \<Rightarrow>
          (case find_first (\<lambda>s. name s = seriesName) (series pd) of
             None \<Rightarrow> state
           | Some i \<Rightarrow>
               state\<lparr>processedData :=
                 Some (pd\<lparr>series := (series pd)[i := (series pd ! i)\<lparr>color := Some col\<rparr>]\<rparr>)\<rparr>))"

definition resetSession :: "SessionState \<Rightarrow> SessionState" where
  "resetSession state = state\<lparr>sessionId := None, processedData := None, uploadError := None\<rparr>"

definition uploadFile_pending :: "SessionState \<Rightarrow> SessionState" where
  "uploadFile_pending state = state\<lparr>isUploading := True, uploadError := None\<rparr>"

definition uploadFile_fulfilled ::
    "SessionState \<Rightarrow> UploadResponse \<Rightarrow> ProcessedData \<Rightarrow> SessionState" where
  "uploadFile_fulfilled state uploadResponse pd =
     state\<lparr>isUploading := False, sessionId := Some (ur_session_id uploadResponse),
           processedData := Some pd, uploadError := None\<rparr>"

text \<open>
  The payload of a rejected upload is what \<open>rejectWithValue\<close> was given; it is absent when
  the thunk was rejected some other way, hence optional.
\<close>

definition uploadFile_rejected :: "SessionState \<Rightarrow> string option \<Rightarrow> SessionState" where
  "uploadFile_rejected state payload = state\<lparr>isUploading := False, uploadError := payload\<rparr>"

definition deleteSession_fulfilled :: "SessionState \<Rightarrow> SessionState" where
  "deleteSession_fulfilled state =
     state\<lparr>sessionId := None, processedData := None, uploadError := None\<rparr>"

text \<open>
  The actions the slice can receive. \<open>deleteSession.pending\<close> and \<open>deleteSession.rejected\<close>
  have no case in \<open>extraReducers\<close>, so the slice returns its state unchanged for them.
\<close>

datatype SessionAction =
    SetSessionId "string option"
  | SetProcessedData "ProcessedData option"
  | UpdateSeriesVisibility string bool
  | UpdateSeriesColor string string
  | ResetSession
  | UploadFilePending
  | UploadFileFulfilled UploadResponse ProcessedData
  | UploadFileRejected "string option"
  | DeleteSessionPending
  | DeleteSessionFulfilled
  | DeleteSessionRejected "string option"

fun sessionReducer :: "SessionState \<Rightarrow> SessionAction \<Rightarrow> SessionState" where
  "sessionReducer state (SetSessionId p) = setSessionId state p"
| "sessionReducer state (SetProcessedData p) = setProcessedData state p"
| "sessionReducer state (UpdateSeriesVisibility n v) = updateSeriesVisibility state n v"
| "sessionReducer state (UpdateSeriesColor n c) = updateSeriesColor state n c"
| "sessionReducer state ResetSession = resetSession state"
| "sessionReducer state UploadFilePending = uploadFile_pending state"
| "sessionReducer state (UploadFileFulfilled r pd) = uploadFile_fulfilled state r pd"
| "sessionReducer state (UploadFileRejected p) = uploadFile_rejected state p"
| "sessionReducer state DeleteSessionPending = state"
| "sessionReducer state DeleteSessionFulfilled = deleteSession_fulfilled state"
| "sessionReducer state (DeleteSessionRejected p) = state"

text \<open>The state of the slice after a sequence of actions dispatched from the initial state.\<close>

definition dispatch_all :: "SessionAction list \<Rightarrow> SessionState" where
  "dispatch_all acts = foldl sessionReducer initialState acts"

section \<open>Chart slice (store/slices/chartSlice.ts)\<close>

record ChartSettings =
  showLegend :: bool
  showDefinedPoints :: bool
  showP10 :: bool
  showP50 :: bool
  showP90 :: bool
  chartType :: ChartType

text \<open>A value of \<open>Record<string, string | number>\<close>.\<close>

datatype StringOrNumber = Str string | Num number

record ChartData =
  cd_line :: "(string \<times> StringOrNumber) list"
  cd_name :: string
  cd_mode :: string
  cd_type :: string
  cd_x :: "number list"
  cd_y :: "number list"

datatype Hovermode =
  HoverFalse | HoverX | HoverY | HoverClosest | HoverXUnified | HoverYUnified

record ChartLayout =
  height :: number
  width :: number
  hovermode :: "Hovermode option"
  title :: "(string \<times> string) list"
  xaxis :: "(string \<times> string) list"
  yaxis :: "(string \<times> string) list"

record ChartAllData =
  data :: "ChartData list"
  layout :: ChartLayout

record StatisticsColors =
  col_p10 :: string
  col_p50 :: string
  col_p90 :: string

record ChartState =
  chartData :: "ChartAllData option"
  chartConfig :: "ChartConfig option"
  settings :: ChartSettings
  statisticsColors :: "StatisticsColors option"
  isGenerating :: bool
  generateError :: "string option"

definition toggleLegend :: "ChartState \<Rightarrow> ChartState" where
  "toggleLegend state =
     state\<lparr>settings := (settings state)\<lparr>showLegend := \<not> showLegend (settings state)\<rparr>\<rparr>"

definition toggleDefinedPoints :: "ChartState \<Rightarrow> ChartState" where
  "toggleDefinedPoints state =
     state\<lparr>settings :=
       (settings state)\<lparr>showDefinedPoints := \<not> showDefinedPoints (settings state)\<rparr>\<rparr>"

definition toggleP10 :: "ChartState \<Rightarrow> ChartState" where
  "toggleP10 state =
     state\<lparr>settings := (settings state)\<lparr>showP10 := \<not> showP10 (settings state)\<rparr>\<rparr>"

definition toggleP50 :: "ChartState \<Rightarrow> ChartState" where
  "toggleP50 state =
     state\<lparr>settings := (settings state)\<lparr>showP50 := \<not> showP50 (settings state)\<rparr>\<rparr>"

definition toggleP90 :: "ChartState \<Rightarrow> ChartState" where
  "toggleP90 state =
     state\<lparr>settings := (settings state)\<lparr>showP90 := \<not> showP90 (settings state)\<rparr>\<rparr>"

section \<open>Upload gate (FileUploader component)\<close>

text \<open>
  The fields of a browser \<open>File\<close> that \<open>beforeUpload\<close> reads: its name, its MIME type and
  its size in bytes (a non-negative integer).
\<close>

record File =
  file_name :: string
  file_type :: string
  file_size :: nat

text \<open>
  \<open>String.prototype.endsWith\<close>: with \<open>start = length s - length suffix\<close>, false when
  \<open>start\<close> is negative, else whether the substring from \<open>start\<close> to the end is the suffix.
\<close>

definition endsWith :: "string \<Rightarrow> string \<Rightarrow> bool" where
  "endsWith s sfx =
     (length sfx \<le> length s \<and> drop (length s - length sfx) s = sfx)"

text \<open>
  \<open>beforeUpload\<close> returns its verdict; the text handed to \<open>message.error\<close>, if any, is
  the second component. The two divisions by 1024 are exact, so the quotient is a rational.
\<close>

definition beforeUpload :: "File \<Rightarrow> bool \<times> string option" where
  "beforeUpload file =
     (let isCSV = (file_type file = ''text/csv'' \<or> endsWith (file_name file) ''.csv'') in
      if \<not> isCSV then (False, Some ''You can only upload CSV files!'')
      else
        let isLt50M = (rat_of_nat (file_size file) / 1024 / 1024 < 50) in
        if \<not> isLt50M then (False, Some ''File must be smaller than 50MB!'')
        else (True, None))"

section \<open>API configuration (services/config.ts)\<close>

definition API_VERSION :: string where
  "API_VERSION = ''/api/v1''"

definition UPLOAD :: string where
  "UPLOAD = API_VERSION @ ''/upload/''"

definition DATA :: "string \<Rightarrow> string" where
  "DATA sid = API_VERSION @ ''/data/'' @ sid"

definition CHART_GENERATE :: string where
  "CHART_GENERATE = API_VERSION @ ''/chart/generate''"

definition CHART_PREVIEW :: "string \<Rightarrow> string" where
  "CHART_PREVIEW sid = API_VERSION @ ''/chart/preview/'' @ sid"

definition EXPORT :: "string \<Rightarrow> string" where
  "EXPORT sid = API_VERSION @ ''/export/'' @ sid"

definition EXPORT_CSV :: "string \<Rightarrow> string" where
  "EXPORT_CSV sid = API_VERSION @ ''/export/csv/'' @ sid"

definition EXPORT_HTML :: "string \<Rightarrow> string" where
  "EXPORT_HTML sid = API_VERSION @ ''/export/html/'' @ sid"

definition SESSION_DELETE :: "string \<Rightarrow> string" where
  "SESSION_DELETE sid = API_VERSION @ ''/session/'' @ sid"

definition SESSION_STATUS :: "string \<Rightarrow> string" where
  "SESSION_STATUS sid = API_VERSION @ ''/session/'' @ sid @ ''/status''"

section \<open>Server-side pipeline, modelled from the specification\<close>

text \<open>
  The Python backend (CSV ingestion, alignment, statistics, chart building) lies outside
  the TypeScript client embedded above, which only declares the shape of its results. The
  definitions of this section follow the wording of the specification. Numbers are exact
  rationals: rounding of floating-point arithmetic is not modelled.
\<close>

subsection \<open>CSVIngestor and SeriesAligner\<close>

text \<open>
  Modelled from the spec: the input of the CSVIngestor, after the file was split into a
  header row and data rows. A data cell is the result of its numeric parsing: \<open>None\<close> for
  a cell that fails to parse (the specification does not fix the number syntax).
\<close>

record CsvTable =
  csv_header :: "string list"
  csv_rows :: "number option list list"

text \<open>Modelled from the spec: the error of the taxonomy with which ingestion fails.\<close>

datatype PipelineError = ValidationError

text \<open>Modelled from the spec: a cell missing from a short row fails numeric parsing.\<close>

definition cell :: "number option list \<Rightarrow> nat \<Rightarrow> number option" where
  "cell row j = (if j < length row then row ! j else None)"

text \<open>
  Modelled from the spec: the \<open>k\<close>-th raw column pair of the CSVIngestor. Columns
  \<open>2k\<close> and \<open>2k+1\<close> are the X and the Y column; the name is the Y column's header.
\<close>

definition raw_pair ::
    "CsvTable \<Rightarrow> nat \<Rightarrow> string \<times> (number option \<times> number option) list" where
  "raw_pair t k =
     (csv_header t ! (2 * k + 1),
      map (\<lambda>row. (cell row (2 * k), cell row (2 * k + 1))) (csv_rows t))"

text \<open>
  Modelled from the spec: the SeriesAligner's conversion of months to an integer day
  offset. The conversion constant is left open by the specification and is a parameter.
\<close>

definition months_to_days :: "rat \<Rightarrow> number \<Rightarrow> int" where
  "months_to_days factor m = round (m * factor)"

text \<open>
  Modelled from the spec: recording a row at day \<open>d\<close> in a series kept in increasing day
  order. An earlier row of the same day is replaced (last write wins).
\<close>

definition upsert :: "int \<Rightarrow> 'v \<Rightarrow> (int \<times> 'v) list \<Rightarrow> (int \<times> 'v) list" where
  "upsert d y pts = filter (\<lambda>q. fst q < d) pts @ [(d, y)] @ filter (\<lambda>q. d < fst q) pts"

text \<open>
  Modelled from the spec: one row of a pair. A row whose X cell is numeric is retained,
  with an undefined Y when the Y cell is not numeric; a row whose X cell is not numeric has
  no place on the axis and is left out.
\<close>

definition align_step ::
    "rat \<Rightarrow> (int \<times> number option) list \<Rightarrow> number option \<times> number option
       \<Rightarrow> (int \<times> number option) list" where
  "align_step factor acc c =
     (case fst c of None \<Rightarrow> acc | Some m \<Rightarrow> upsert (months_to_days factor m) (snd c) acc)"

text \<open>Modelled from the spec: the rows of a pair, taken in file order.\<close>

definition align_rows ::
    "rat \<Rightarrow> (number option \<times> number option) list \<Rightarrow> (int \<times> number option) list" where
  "align_rows factor cells = foldl (align_step factor) [] cells"

text \<open>
  Modelled from the spec: the series of a pair. \<open>count_stat\<close> is true exactly where the
  Y value is defined; the colour is unset and the series visible by default.
\<close>

definition make_series ::
    "rat \<Rightarrow> string \<times> (number option \<times> number option) list \<Rightarrow> SeriesData" where
  "make_series factor p =
     (let pts = align_rows factor (snd p) in
      \<lparr>name = fst p, x_values = map (\<lambda>q. of_int (fst q)) pts, y_values = map snd pts,
       count_stat = map (\<lambda>q. snd q \<noteq> None) pts, color = None, visible = True\<rparr>)"

text \<open>
  Modelled from the spec: ingestion of a file. An empty file, an unpaired trailing column
  and a file in which no pair has any numeric Y value fail with \<open>ValidationError\<close>.
\<close>

definition ingest :: "rat \<Rightarrow> CsvTable \<Rightarrow> PipelineError + SeriesData list" where
  "ingest factor t =
     (let h = csv_header t in
      if h = [] then Inl ValidationError
      else if odd (length h) then Inl ValidationError
      else
        let pairs = map (raw_pair t) [0..<length h div 2] in
        if \<not> (\<exists>p \<in> set pairs. \<exists>c \<in> set (snd p). snd c \<noteq> None) then Inl ValidationError
        else Inr (map (make_series factor) pairs))"

subsection \<open>StatisticsEngine\<close>

text \<open>Modelled from the spec: the master timeline, the sorted union of all X points.\<close>

definition master_timeline :: "SeriesData list \<Rightarrow> number list" where
  "master_timeline ss = sort (remdups (concat (map x_values ss)))"

text \<open>
  Modelled from the spec: the defined Y values of a series at exactly the timeline
  point \<open>t\<close> (no interpolation across neighbouring points).
\<close>

definition defined_at :: "number \<Rightarrow> SeriesData \<Rightarrow> number list" where
  "defined_at t s =
     concat (map (\<lambda>xy. case snd xy of None \<Rightarrow> [] | Some v \<Rightarrow> if fst xy = t then [v] else [])
                 (zip (x_values s) (y_values s)))"

text \<open>
  Modelled from the spec: the percentile at rank \<open>p\<close> of a sorted, non-empty list, by linear
  interpolation at the fractional index \<open>p * (n - 1)\<close> between the order statistics
  below and above it (the upper one clipped to the last position).
\<close>

definition percentile :: "rat \<Rightarrow> number list \<Rightarrow> number" where
  "percentile p xs =
     (let n = length xs;
          h = p * of_nat (n - 1);
          lo = nat \<lfloor>h\<rfloor>;
          hi = min (lo + 1) (n - 1);
          frac = h - of_nat lo
      in xs ! lo + frac * (xs ! hi - xs ! lo))"

text \<open>
  Modelled from the spec: one statistic at one timeline point, \<open>null\<close> when no series has
  a defined value there.
\<close>

definition stat_at :: "rat \<Rightarrow> SeriesData list \<Rightarrow> number \<Rightarrow> number option" where
  "stat_at p ss t =
     (let vs = concat (map (defined_at t) ss) in
      if vs = [] then None else Some (percentile p (sort vs)))"

text \<open>Modelled from the spec: the three statistics, aligned with the master timeline.\<close>

definition compute_statistics :: "SeriesData list \<Rightarrow> StatisticsData" where
  "compute_statistics ss =
     (let tl = master_timeline ss in
      \<lparr>p10 = map (stat_at (1 / 10) ss) tl,
       p50 = map (stat_at (1 / 2) ss) tl,
       p90 = map (stat_at (9 / 10) ss) tl\<rparr>)"

subsection \<open>ChartSpecBuilder: the series traces\<close>

text \<open>
  Modelled from the spec: a trace of the chart descriptor, with its name and its two
  coordinate sequences. Line style and mode have no values fixed by the specification and
  are left out, as are the overlay traces and the layout.
\<close>

record Trace =
  tr_name :: string
  tr_x :: "number list"
  tr_y :: "number option list"

text \<open>
  Modelled from the spec: the effective visibility of a series, the stored flag overlaid
  with the entry of \<open>series_config\<close> for its name, if there is one.
\<close>

definition effective_visible :: "ChartConfig \<Rightarrow> SeriesData \<Rightarrow> bool" where
  "effective_visible cfg s =
     (case series_config cfg of
        None \<Rightarrow> visible s
      | Some scs \<Rightarrow>
          (case find (\<lambda>c. sc_name c = name s) scs of
             None \<Rightarrow> visible s
           | Some c \<Rightarrow> sc_visible c))"

text \<open>
  Modelled from the spec: the running total of a cumulative trace. An undefined point
  adds nothing and does not reset the total.
\<close>

fun running_sum :: "number \<Rightarrow> number option list \<Rightarrow> number list" where
  "running_sum acc [] = []"
| "running_sum acc (y # ys) =
     (let acc' = (case y of None \<Rightarrow> acc | Some v \<Rightarrow> acc + v) in acc' # running_sum acc' ys)"

text \<open>
  Modelled from the spec: the trace of one series; \<open>line\<close> keeps the Y values with their
  gaps, \<open>cumulative\<close> shows the running total.
\<close>

definition series_trace :: "ChartType \<Rightarrow> SeriesData \<Rightarrow> Trace" where
  "series_trace ct s =
     \<lparr>tr_name = name s, tr_x = x_values s,
      tr_y = (case ct of LINE \<Rightarrow> y_values s
                       | CUMULATIVE \<Rightarrow> map Some (running_sum 0 (y_values s)))\<rparr>"

text \<open>Modelled from the spec: the visible series of a request, in stored order.\<close>

definition visible_series :: "ProcessedData \<Rightarrow> ChartConfig \<Rightarrow> SeriesData list" where
  "visible_series pd cfg = filter (effective_visible cfg) (series pd)"

text \<open>Modelled from the spec: one trace per visible series.\<close>

definition series_traces :: "ProcessedData \<Rightarrow> ChartConfig \<Rightarrow> Trace list" where
  "series_traces pd cfg = map (series_trace (chart_type cfg)) (visible_series pd cfg)"

text \<open>
  Modelled from the spec: the sum of the defined Y values of a sequence, an undefined
  entry contributing zero.
\<close>

definition defined_sum :: "number option list \<Rightarrow> number" where
  "defined_sum ys = sum_list (map (\<lambda>y. case y of None \<Rightarrow> 0 | Some v \<Rightarrow> v) ys)"

section \<open>Concrete inputs\<close>

text \<open>The series the store holds: none while \<open>processedData\<close> is \<open>null\<close>.\<close>

definition stored_series :: "SessionState \<Rightarrow> SeriesData list" where
  "stored_series state = (case processedData state of None \<Rightarrow> [] | Some pd \<Rightarrow> series pd)"

text \<open>
  The scenario of the specification: columns \<open>MonthA, ValA, MonthB, ValB\<close> with the rows
  \<open>(0,10,0,20)\<close>, \<open>(1,,1,30)\<close>, \<open>(2,15,2,)\<close>, read with 30 days to the month.
\<close>

definition example_csv :: CsvTable where
  "example_csv = \<lparr>csv_header = [''MonthA'', ''ValA'', ''MonthB'', ''ValB''],
     csv_rows = [[Some 0, Some 10, Some 0, Some 20], [Some 1, None, Some 1, Some 30],
                 [Some 2, Some 15, Some 2, None]]\<rparr>"

definition example_series :: "SeriesData list" where
  "example_series =
     [\<lparr>name = ''ValA'', x_values = [0, 30, 60], y_values = [Some 10, None, Some 15],
       count_stat = [True, False, True], color = None, visible = True\<rparr>,
      \<lparr>name = ''ValB'', x_values = [0, 30, 60], y_values = [Some 20, Some 30, None],
       count_stat = [True, True, False], color = None, visible = True\<rparr>]"

definition example_pd :: ProcessedData where
  "example_pd = \<lparr>session_id = ''s1'', series = example_series,
     statistics = \<lparr>p10 = [Some 11, Some 30, Some 15], p50 = [Some 15, Some 30, Some 15],
                   p90 = [Some 19, Some 30, Some 15]\<rparr>,
     original_filename = ''f.csv'', created_at = ''2024-01-01T00:00:00''\<rparr>"

definition example_state :: SessionState where
  "example_state = \<lparr>sessionId = Some ''s1'', processedData = Some example_pd,
     isUploading = False, uploadError = None\<rparr>"

definition example_cfg :: ChartConfig where
  "example_cfg = \<lparr>cc_session_id = ''s1'', chart_type = CUMULATIVE, show_legend = True,
     show_defined_points = False, show_p10 = False, show_p50 = False, show_p90 = False,
     series_config = Some [\<lparr>sc_name = ''ValA'', sc_visible = False, sc_color = None\<rparr>]\<rparr>"

definition big_csv :: File where
  "big_csv = \<lparr>file_name = ''data.csv'', file_type = ''text/csv'', file_size = 52428800\<rparr>"

definition text_file :: File where
  "text_file = \<lparr>file_name = ''notes.txt'', file_type = ''text/plain'', file_size = 10\<rparr>"

definition small_csv :: File where
  "small_csv =
     \<lparr>file_name = ''data.csv'', file_type = ''application/vnd.ms-excel'',
      file_size = 52428799\<rparr>"

section \<open>The session slice: updates of a series\<close>

lemma find_first_None: "find_first P xs = None \<longleftrightarrow> (\<forall>x \<in> set xs. \<not> P x)"
  by (induction xs) (auto split: option.splits)

lemma find_first_Some:
  "find_first P xs = Some i \<Longrightarrow> i < length xs \<and> P (xs ! i) \<and> (\<forall>x \<in> set (take i xs). \<not> P x)"
proof (induction xs arbitrary: i)
  case Nil
  then show ?case by simp
next
  case (Cons x xs)
  show ?case
  proof (cases "P x")
    case True
    with Cons.prems show ?thesis by simp
  next
    case False
    with Cons.prems obtain k where k: "find_first P xs = Some k" "i = Suc k"
      by (auto split: option.splits)
    from Cons.IH [OF k(1)] False k(2) show ?thesis by simp
  qed
qed

lemma find_first_exists: "\<exists>x \<in> set xs. P x \<Longrightarrow> \<exists>i. find_first P xs = Some i"
  using find_first_None [of P xs] by (cases "find_first P xs") auto

text \<open>
  Claim C5. A visibility update or a colour update whose series name does not occur among
  the stored series leaves the state of the session slice as it was; nothing is reported.
\<close>

theorem unknown_series_update_is_noop:
  assumes "seriesName \<notin> name ` set (stored_series state)"
  shows "updateSeriesVisibility state seriesName vis = state
       \<and> updateSeriesColor state seriesName col = state"
proof (cases "processedData state")
  case None
  then show ?thesis by (simp add: updateSeriesVisibility_def updateSeriesColor_def)
next
  case (Some pd)
  with assms have "\<forall>s \<in> set (series pd). name s \<noteq> seriesName"
    by (auto simp: stored_series_def)
  then have "find_first (\<lambda>s. name s = seriesName) (series pd) = None"
    by (simp add: find_first_None)
  with Some show ?thesis by (simp add: updateSeriesVisibility_def updateSeriesColor_def)
qed

theorem unknown_series_update_is_noop_witness:
  "''ValC'' \<notin> name ` set (stored_series example_state)
 \<and> updateSeriesVisibility example_state ''ValC'' False = example_state
 \<and> updateSeriesColor example_state ''ValC'' ''#ff0000'' = example_state"
proof -
  have h: "''ValC'' \<notin> name ` set (stored_series example_state)"
    by (simp add: stored_series_def example_state_def example_pd_def example_series_def)
  from unknown_series_update_is_noop [OF h, of False "''#ff0000''"] h show ?thesis by simp
qed

text \<open>
  Claim C6. A visibility update (a colour update) that names an existing series writes
  the \<open>visible\<close> (the \<open>color\<close>) field of the first series of that name and nothing else:
  the statistics, the session id, the file name, the creation time, every other series, the
  other fields of that series and the rest of the slice state are as before.
\<close>

theorem series_update_frame:
  assumes pd: "processedData state = Some pd"
    and ex: "seriesName \<in> name ` set (series pd)"
  shows "\<exists>i pv pc.
      i < length (series pd) \<and> name (series pd ! i) = seriesName
    \<and> seriesName \<notin> name ` set (take i (series pd))
    \<and> processedData (updateSeriesVisibility state seriesName vis) = Some pv
    \<and> processedData (updateSeriesColor state seriesName col) = Some pc
    \<and> series pv = (series pd)[i := (series pd ! i)\<lparr>visible := vis\<rparr>]
    \<and> series pc = (series pd)[i := (series pd ! i)\<lparr>color := Some col\<rparr>]
    \<and> statistics pv = statistics pd \<and> statistics pc = statistics pd
    \<and> session_id pv = session_id pd \<and> session_id pc = session_id pd
    \<and> original_filename pv = original_filename pd
    \<and> original_filename pc = original_filename pd
    \<and> created_at pv = created_at pd \<and> created_at pc = created_at pd
    \<and> sessionId (updateSeriesVisibility state seriesName vis) = sessionId state
    \<and> sessionId (updateSeriesColor state seriesName col) = sessionId state
    \<and> isUploading (updateSeriesVisibility state seriesName vis) = isUploading state
    \<and> isUploading (updateSeriesColor state seriesName col) = isUploading state
    \<and> uploadError (updateSeriesVisibility state seriesName vis) = uploadError state
    \<and> uploadError (updateSeriesColor state seriesName col) = uploadError state"
proof -
  from ex have "\<exists>s \<in> set (series pd). name s = seriesName" by auto
  then obtain i where i: "find_first (\<lambda>s. name s = seriesName) (series pd) = Some i"
    using find_first_exists [of "series pd" "\<lambda>s. name s = seriesName"] by blast
  from find_first_Some [OF i]
  have fs: "i < length (series pd)" "name (series pd ! i) = seriesName"
    "seriesName \<notin> name ` set (take i (series pd))"
    by auto
  show ?thesis
    apply (rule exI [of _ i])
    using fs pd i by (simp add: updateSeriesVisibility_def updateSeriesColor_def)
qed

theorem series_update_frame_witness:
  "processedData example_state = Some example_pd
 \<and> ''ValB'' \<in> name ` set (series example_pd)
 \<and> map visible (stored_series (updateSeriesVisibility example_state ''ValB'' False))
      = [True, False]
 \<and> map color (stored_series (updateSeriesColor example_state ''ValB'' ''#ff0000''))
      = [None, Some ''#ff0000'']"
  using series_update_frame [of example_state example_pd "''ValB''" False "''#ff0000''"]
  by (simp add: stored_series_def example_state_def example_pd_def example_series_def
      updateSeriesVisibility_def updateSeriesColor_def)

section \<open>The session slice: upload flag and upload error\<close>

lemma sessionReducer_invariant:
  "isUploading st \<longrightarrow> uploadError st = None
   \<Longrightarrow> isUploading (sessionReducer st a) \<longrightarrow> uploadError (sessionReducer st a) = None"
  by (cases a)
     (simp_all add: setSessionId_def setProcessedData_def updateSeriesVisibility_def
        updateSeriesColor_def resetSession_def uploadFile_pending_def uploadFile_fulfilled_def
        uploadFile_rejected_def deleteSession_fulfilled_def split: option.splits)

lemma foldl_sessionReducer_invariant:
  "isUploading st \<longrightarrow> uploadError st = None
   \<Longrightarrow> isUploading (foldl sessionReducer st acts)
         \<longrightarrow> uploadError (foldl sessionReducer st acts) = None"
proof (induction acts arbitrary: st)
  case Nil
  then show ?case by simp
next
  case (Cons a acts)
  from Cons.IH [OF sessionReducer_invariant [OF Cons.prems, of a]] show ?case by simp
qed

text \<open>
  Claim C10. In every state the session slice reaches from its initial state by a sequence
  of its actions, an upload in progress means that no upload error is recorded.
\<close>

theorem uploading_implies_no_upload_error:
  "isUploading (dispatch_all acts) \<longrightarrow> uploadError (dispatch_all acts) = None"
  unfolding dispatch_all_def
  by (rule foldl_sessionReducer_invariant) (simp add: initialState_def)

theorem uploading_implies_no_upload_error_witness:
  "isUploading
     (dispatch_all [UploadFilePending, UploadFileRejected (Some ''boom''), UploadFilePending])
 \<and> uploadError
     (dispatch_all [UploadFilePending, UploadFileRejected (Some ''boom''), UploadFilePending])
     = None"
  using uploading_implies_no_upload_error
    [of "[UploadFilePending, UploadFileRejected (Some ''boom''), UploadFilePending]"]
  by (simp add: dispatch_all_def initialState_def uploadFile_pending_def uploadFile_rejected_def)

section \<open>The chart slice: toggles\<close>

text \<open>
  Claim C9. Each of the five toggles of the chart settings undoes itself when applied
  twice, and applied once it negates its own flag and leaves every other field of the chart
  state as it was.
\<close>

theorem chart_toggles_involutive_and_framed:
  "toggleLegend (toggleLegend st) = st
 \<and> chartData (toggleLegend st) = chartData st
 \<and> chartConfig (toggleLegend st) = chartConfig st
 \<and> statisticsColors (toggleLegend st) = statisticsColors st
 \<and> isGenerating (toggleLegend st) = isGenerating st
 \<and> generateError (toggleLegend st) = generateError st
 \<and> showLegend (settings (toggleLegend st)) = (\<not> showLegend (settings st))
 \<and> showDefinedPoints (settings (toggleLegend st)) = showDefinedPoints (settings st)
 \<and> showP10 (settings (toggleLegend st)) = showP10 (settings st)
 \<and> showP50 (settings (toggleLegend st)) = showP50 (settings st)
 \<and> showP90 (settings (toggleLegend st)) = showP90 (settings st)
 \<and> chartType (settings (toggleLegend st)) = chartType (settings st)
 \<and> toggleDefinedPoints (toggleDefinedPoints st) = st
 \<and> chartData (toggleDefinedPoints st) = chartData st
 \<and> chartConfig (toggleDefinedPoints st) = chartConfig st
 \<and> statisticsColors (toggleDefinedPoints st) = statisticsColors st
 \<and> isGenerating (toggleDefinedPoints st) = isGenerating st
 \<and> generateError (toggleDefinedPoints st) = generateError st
 \<and> showDefinedPoints (settings (toggleDefinedPoints st)) = (\<not> showDefinedPoints (settings st))
 \<and> showLegend (settings (toggleDefinedPoints st)) = showLegend (settings st)
 \<and> showP10 (settings (toggleDefinedPoints st)) = showP10 (settings st)
 \<and> showP50 (settings (toggleDefinedPoints st)) = showP50 (settings st)
 \<and> showP90 (settings (toggleDefinedPoints st)) = showP90 (settings st)
 \<and> chartType (settings (toggleDefinedPoints st)) = chartType (settings st)
 \<and> toggleP10 (toggleP10 st) = st
 \<and> chartData (toggleP10 st) = chartData st
 \<and> chartConfig (toggleP10 st) = chartConfig st
 \<and> statisticsColors (toggleP10 st) = statisticsColors st
 \<and> isGenerating (toggleP10 st) = isGenerating st
 \<and> generateError (toggleP10 st) = generateError st
 \<and> showP10 (settings (toggleP10 st)) = (\<not> showP10 (settings st))
 \<and> showLegend (settings (toggleP10 st)) = showLegend (settings st)
 \<and> showDefinedPoints (settings (toggleP10 st)) = showDefinedPoints (settings st)
 \<and> showP50 (settings (toggleP10 st)) = showP50 (settings st)
 \<and> showP90 (settings (toggleP10 st)) = showP90 (settings st)
 \<and> chartType (settings (toggleP10 st)) = chartType (settings st)
 \<and> toggleP50 (toggleP50 st) = st
 \<and> chartData (toggleP50 st) = chartData st
 \<and> chartConfig (toggleP50 st) = chartConfig st
 \<and> statisticsColors (toggleP50 st) = statisticsColors st
 \<and> isGenerating (toggleP50 st) = isGenerating st
 \<and> generateError (toggleP50 st) = generateError st
 \<and> showP50 (settings (toggleP50 st)) = (\<not> showP50 (settings st))
 \<and> showLegend (settings (toggleP50 st)) = showLegend (settings st)
 \<and> showDefinedPoints (settings (toggleP50 st)) = showDefinedPoints (settings st)
 \<and> showP10 (settings (toggleP50 st)) = showP10 (settings st)
 \<and> showP90 (settings (toggleP50 st)) = showP90 (settings st)
 \<and> chartType (settings (toggleP50 st)) = chartType (settings st)
 \<and> toggleP90 (toggleP90 st) = st
 \<and> chartData (toggleP90 st) = chartData st
 \<and> chartConfig (toggleP90 st) = chartConfig st
 \<and> statisticsColors (toggleP90 st) = statisticsColors st
 \<and> isGenerating (toggleP90 st) = isGenerating st
 \<and> generateError (toggleP90 st) = generateError st
 \<and> showP90 (settings (toggleP90 st)) = (\<not> showP90 (settings st))
 \<and> showLegend (settings (toggleP90 st)) = showLegend (settings st)
 \<and> showDefinedPoints (settings (toggleP90 st)) = showDefinedPoints (settings st)
 \<and> showP10 (settings (toggleP90 st)) = showP10 (settings st)
 \<and> showP50 (settings (toggleP90 st)) = showP50 (settings st)
 \<and> chartType (settings (toggleP90 st)) = chartType (settings st)"
  by (simp add: toggleLegend_def toggleDefinedPoints_def toggleP10_def toggleP50_def
      toggleP90_def)

section \<open>The upload gate\<close>

lemma size_quotient_lt_50:
  "(rat_of_nat n / 1024 / 1024 < 50) = (n < 50 * 1024 * 1024)"
proof -
  have "(rat_of_nat n / 1024 / 1024 < 50) = (rat_of_nat n < rat_of_nat (50 * 1024 * 1024))"
    by (simp add: divide_less_eq)
  also have "\<dots> = (n < 50 * 1024 * 1024)"
    by (simp only: of_nat_less_iff)
  finally show ?thesis .
qed

text \<open>
  Claim C8. \<open>beforeUpload\<close> refuses every file of 50 * 1024 * 1024 bytes or more, refuses
  every file that has neither the MIME type \<open>text/csv\<close> nor a name ending in \<open>.csv\<close>, and
  accepts every CSV file below that size.
\<close>

theorem beforeUpload_gate:
  "(50 * 1024 * 1024 \<le> file_size file \<longrightarrow> fst (beforeUpload file) = False)
 \<and> (file_type file \<noteq> ''text/csv'' \<and> \<not> endsWith (file_name file) ''.csv''
      \<longrightarrow> fst (beforeUpload file) = False)
 \<and> ((file_type file = ''text/csv'' \<or> endsWith (file_name file) ''.csv'')
      \<and> file_size file < 50 * 1024 * 1024 \<longrightarrow> fst (beforeUpload file) = True)"
  unfolding beforeUpload_def Let_def size_quotient_lt_50
  by auto

theorem beforeUpload_gate_witness:
  "50 * 1024 * 1024 \<le> file_size big_csv \<and> fst (beforeUpload big_csv) = False
 \<and> file_type text_file \<noteq> ''text/csv'' \<and> \<not> endsWith (file_name text_file) ''.csv''
 \<and> fst (beforeUpload text_file) = False
 \<and> endsWith (file_name small_csv) ''.csv''
 \<and> file_size small_csv < 50 * 1024 * 1024 \<and> fst (beforeUpload small_csv) = True"
  using beforeUpload_gate [of big_csv] beforeUpload_gate [of text_file]
    beforeUpload_gate [of small_csv]
  by (simp add: big_csv_def text_file_def small_csv_def endsWith_def)

section \<open>The API endpoints\<close>

text \<open>
  Claim C7. Every endpoint builder returns the path of the REST surface under the prefix
  \<open>/api/v1\<close>, with the session id put in place of \<open>{session_id}\<close>.
\<close>

theorem api_endpoints_paths:
  "UPLOAD = ''/api/v1/upload/''
 \<and> DATA s = ''/api/v1/data/'' @ s
 \<and> CHART_GENERATE = ''/api/v1/chart/generate''
 \<and> CHART_PREVIEW s = ''/api/v1/chart/preview/'' @ s
 \<and> EXPORT s = ''/api/v1/export/'' @ s
 \<and> EXPORT_CSV s = ''/api/v1/export/csv/'' @ s
 \<and> EXPORT_HTML s = ''/api/v1/export/html/'' @ s
 \<and> SESSION_DELETE s = ''/api/v1/session/'' @ s
 \<and> SESSION_STATUS s = ''/api/v1/session/'' @ s @ ''/status''"
  by (simp add: API_VERSION_def UPLOAD_def DATA_def CHART_GENERATE_def CHART_PREVIEW_def
      EXPORT_def EXPORT_CSV_def EXPORT_HTML_def SESSION_DELETE_def SESSION_STATUS_def)

section \<open>Ingestion: the shape of a series\<close>

lemma upsert_keys_increasing:
  "sorted_wrt (<) (map fst pts) \<Longrightarrow> sorted_wrt (<) (map fst (upsert d y pts))"
  unfolding upsert_def
  by (auto simp: sorted_wrt_append sorted_wrt_map sorted_wrt_filter)

lemma align_step_keys_increasing:
  "sorted_wrt (<) (map fst acc) \<Longrightarrow> sorted_wrt (<) (map fst (align_step factor acc c))"
  by (simp add: align_step_def upsert_keys_increasing split: option.splits)

lemma foldl_align_step_keys_increasing:
  "sorted_wrt (<) (map fst acc)
   \<Longrightarrow> sorted_wrt (<) (map fst (foldl (align_step factor) acc cells))"
  by (induction cells arbitrary: acc) (simp_all add: align_step_keys_increasing)

lemma align_rows_keys_increasing: "sorted_wrt (<) (map fst (align_rows factor cells))"
  unfolding align_rows_def by (rule foldl_align_step_keys_increasing) simp

lemma strictly_increasing_distinct:
  fixes ks :: "int list"
  shows "sorted_wrt (<) ks \<Longrightarrow> distinct ks"
  by (induction ks) auto

lemma make_series_x_distinct: "distinct (x_values (make_series factor p))"
proof -
  let ?pts = "align_rows factor (snd p)"
  have "distinct (map fst ?pts)"
    by (rule strictly_increasing_distinct) (rule align_rows_keys_increasing)
  then have "distinct (map (of_int :: int \<Rightarrow> rat) (map fst ?pts))"
    by (simp add: distinct_map inj_on_def)
  then show ?thesis
    by (simp add: make_series_def Let_def comp_def)
qed

lemma make_series_lengths:
  "length (x_values (make_series factor p)) = length (y_values (make_series factor p))
 \<and> length (y_values (make_series factor p)) = length (count_stat (make_series factor p))"
  by (simp add: make_series_def Let_def)

lemma example_ingest: "ingest 30 example_csv = Inr example_series"
  by code_simp

text \<open>
  Claim C4. For every input that ingestion accepts, every resulting series has X values,
  Y values and defined-mask of one length, and no X value occurs twice.
\<close>

theorem ingest_series_invariant:
  assumes "ingest factor t = Inr ss" and "s \<in> set ss"
  shows "length (x_values s) = length (y_values s)
       \<and> length (y_values s) = length (count_stat s)
       \<and> distinct (x_values s)"
proof -
  from assms have "s \<in> range (make_series factor)"
    by (auto simp: ingest_def Let_def split: if_splits)
  then obtain p where "s = make_series factor p" ..
  then show ?thesis
    using make_series_lengths [of factor p] make_series_x_distinct [of factor p] by simp
qed

theorem ingest_series_invariant_witness:
  "ingest 30 example_csv = Inr example_series
 \<and> hd example_series \<in> set example_series
 \<and> length (x_values (hd example_series)) = length (y_values (hd example_series))
 \<and> length (y_values (hd example_series)) = length (count_stat (hd example_series))
 \<and> distinct (x_values (hd example_series))"
proof -
  have h: "hd example_series \<in> set example_series" by (simp add: example_series_def)
  from ingest_series_invariant [OF example_ingest h] example_ingest h show ?thesis by simp
qed

section \<open>Cumulative traces\<close>

lemma running_sum_length: "length (running_sum acc ys) = length ys"
  by (induction ys arbitrary: acc) (simp_all add: Let_def)

lemma running_sum_nth:
  "i < length ys \<Longrightarrow> running_sum acc ys ! i = acc + defined_sum (take (Suc i) ys)"
proof (induction ys arbitrary: acc i)
  case Nil
  then show ?case by simp
next
  case (Cons y ys)
  show ?case
  proof (cases i)
    case 0
    then show ?thesis by (simp add: defined_sum_def Let_def split: option.splits)
  next
    case (Suc k)
    with Cons.prems have "k < length ys" by simp
    from Cons.IH [OF this] Suc show ?thesis
      by (simp add: defined_sum_def Let_def split: option.splits)
  qed
qed

lemma running_sum_last:
  assumes "ys \<noteq> []"
  shows "last (running_sum acc ys) = acc + defined_sum ys"
proof -
  from assms have n: "length ys - 1 < length ys" by simp
  from assms have "running_sum acc ys \<noteq> []"
    using running_sum_length [of acc ys] by auto
  then have "last (running_sum acc ys) = running_sum acc ys ! (length ys - 1)"
    by (simp add: last_conv_nth running_sum_length)
  also have "\<dots> = acc + defined_sum (take (Suc (length ys - 1)) ys)"
    by (rule running_sum_nth [OF n])
  also from assms have "take (Suc (length ys - 1)) ys = ys" by simp
  finally show ?thesis .
qed

lemma example_visible: "visible_series example_pd example_cfg = [example_series ! 1]"
  by (simp add: visible_series_def example_pd_def example_cfg_def example_series_def
      effective_visible_def)

lemma example_traces:
  "series_traces example_pd example_cfg =
     [\<lparr>tr_name = ''ValB'', tr_x = [0, 30, 60], tr_y = [Some 20, Some 50, Some 50]\<rparr>]"
  by (simp add: series_traces_def example_visible series_trace_def)
     (simp add: example_cfg_def example_series_def)

text \<open>
  Claim C3. In a chart of type \<open>cumulative\<close> there is one trace per visible series, and
  the value of that trace at position \<open>i\<close> is the sum of the defined Y values of the series
  at the positions up to \<open>i\<close>, undefined ones counting as zero; the last value of the trace
  is the sum of all defined Y values of the series.
\<close>

theorem cumulative_trace_is_running_sum:
  assumes ct: "chart_type cfg = CUMULATIVE"
    and j: "j < length (visible_series pd cfg)"
  shows "length (series_traces pd cfg) = length (visible_series pd cfg)
    \<and> tr_name (series_traces pd cfg ! j) = name (visible_series pd cfg ! j)
    \<and> length (tr_y (series_traces pd cfg ! j)) = length (y_values (visible_series pd cfg ! j))
    \<and> (\<forall>i < length (y_values (visible_series pd cfg ! j)).
          tr_y (series_traces pd cfg ! j) ! i
            = Some (defined_sum (take (Suc i) (y_values (visible_series pd cfg ! j)))))
    \<and> (y_values (visible_series pd cfg ! j) \<noteq> [] \<longrightarrow>
          last (tr_y (series_traces pd cfg ! j))
            = Some (defined_sum (y_values (visible_series pd cfg ! j))))"
proof -
  let ?s = "visible_series pd cfg ! j"
  from j ct have tr: "series_traces pd cfg ! j = series_trace CUMULATIVE ?s"
    by (simp add: series_traces_def)
  have y: "tr_y (series_trace CUMULATIVE ?s) = map Some (running_sum 0 (y_values ?s))"
    by (simp add: series_trace_def)
  have a: "length (series_traces pd cfg) = length (visible_series pd cfg)"
    by (simp add: series_traces_def)
  have b: "tr_name (series_traces pd cfg ! j) = name ?s"
    by (simp add: tr series_trace_def)
  have c: "length (tr_y (series_traces pd cfg ! j)) = length (y_values ?s)"
    by (simp add: tr y running_sum_length)
  have d: "\<forall>i < length (y_values ?s).
      tr_y (series_traces pd cfg ! j) ! i = Some (defined_sum (take (Suc i) (y_values ?s)))"
    by (simp add: tr y running_sum_length running_sum_nth)
  have e: "y_values ?s \<noteq> [] \<longrightarrow>
      last (tr_y (series_traces pd cfg ! j)) = Some (defined_sum (y_values ?s))"
  proof
    assume ne: "y_values ?s \<noteq> []"
    then have "running_sum 0 (y_values ?s) \<noteq> []"
      using running_sum_length [of 0 "y_values ?s"] by auto
    then show "last (tr_y (series_traces pd cfg ! j)) = Some (defined_sum (y_values ?s))"
      by (simp add: tr y last_map running_sum_last [OF ne])
  qed
  from a b c d e show ?thesis by blast
qed

theorem cumulative_trace_is_running_sum_witness:
  "chart_type example_cfg = CUMULATIVE
 \<and> 0 < length (visible_series example_pd example_cfg)
 \<and> (1::nat) < length (y_values (visible_series example_pd example_cfg ! 0))
 \<and> y_values (visible_series example_pd example_cfg ! 0) \<noteq> []
 \<and> tr_y (series_traces example_pd example_cfg ! 0) ! 1 = Some 50
 \<and> defined_sum (take (Suc 1) (y_values (visible_series example_pd example_cfg ! 0))) = 50
 \<and> last (tr_y (series_traces example_pd example_cfg ! 0)) = Some 50
 \<and> defined_sum (y_values (visible_series example_pd example_cfg ! 0)) = 50"
  using cumulative_trace_is_running_sum [of example_cfg 0 example_pd]
  by (simp add: example_visible example_traces)
     (simp add: example_cfg_def example_series_def defined_sum_def)

section \<open>Ordering of the percentile statistics\<close>

lemma interp_between:
  fixes xs :: "rat list"
  assumes srt: "sorted xs" and lo: "lo < length xs"
    and f0: "0 \<le> f" and f1: "f \<le> 1"
  shows "xs ! lo \<le> xs ! lo + f * (xs ! min (lo + 1) (length xs - 1) - xs ! lo)"
    and "xs ! lo + f * (xs ! min (lo + 1) (length xs - 1) - xs ! lo)
           \<le> xs ! min (lo + 1) (length xs - 1)"
proof -
  let ?hi = "min (lo + 1) (length xs - 1)"
  from lo have "lo \<le> ?hi" "?hi < length xs" by auto
  with srt have d: "0 \<le> xs ! ?hi - xs ! lo"
    by (simp add: sorted_nth_mono)
  from f0 d have "0 \<le> f * (xs ! ?hi - xs ! lo)" by (rule mult_nonneg_nonneg)
  then show "xs ! lo \<le> xs ! lo + f * (xs ! ?hi - xs ! lo)" by simp
  from f1 d have "f * (xs ! ?hi - xs ! lo) \<le> 1 * (xs ! ?hi - xs ! lo)"
    by (rule mult_right_mono)
  then show "xs ! lo + f * (xs ! ?hi - xs ! lo) \<le> xs ! ?hi" by simp
qed

lemma percentile_mono:
  assumes srt: "sorted xs" and ne: "xs \<noteq> []"
    and p0: "0 \<le> p" and pq: "p \<le> q" and q1: "q \<le> 1"
  shows "percentile p xs \<le> percentile q xs"
proof -
  define m where "m = length xs - 1"
  define h1 where "h1 = p * rat_of_nat m"
  define h2 where "h2 = q * rat_of_nat m"
  define l1 where "l1 = nat \<lfloor>h1\<rfloor>"
  define l2 where "l2 = nat \<lfloor>h2\<rfloor>"
  have m0: "0 \<le> rat_of_nat m" by simp
  have h1_0: "0 \<le> h1" unfolding h1_def using p0 m0 by (rule mult_nonneg_nonneg)
  have h12: "h1 \<le> h2" unfolding h1_def h2_def using pq m0 by (rule mult_right_mono)
  have h2_m: "h2 \<le> rat_of_nat m"
    unfolding h2_def using mult_right_mono [OF q1 m0] by simp
  have h2_0: "0 \<le> h2" using h1_0 h12 by simp
  have l1r: "rat_of_nat l1 = of_int \<lfloor>h1\<rfloor>" unfolding l1_def using h1_0 by simp
  have l2r: "rat_of_nat l2 = of_int \<lfloor>h2\<rfloor>" unfolding l2_def using h2_0 by simp
  have l12: "l1 \<le> l2" unfolding l1_def l2_def using h12 by (simp add: floor_mono nat_mono)
  have "\<lfloor>h2\<rfloor> \<le> int m" using h2_m by (simp add: floor_le_iff)
  then have l2m: "l2 \<le> m" unfolding l2_def by simp
  from ne have len: "length xs = Suc m" unfolding m_def by (cases xs) simp_all
  have l1_lt: "l1 < length xs" and l2_lt: "l2 < length xs" using l12 l2m len by simp_all
  have f1_0: "0 \<le> h1 - rat_of_nat l1" and f1_1: "h1 - rat_of_nat l1 \<le> 1"
    unfolding l1r by linarith+
  have f2_0: "0 \<le> h2 - rat_of_nat l2" and f2_1: "h2 - rat_of_nat l2 \<le> 1"
    unfolding l2r by linarith+
  let ?v1 = "xs ! l1 + (h1 - rat_of_nat l1) * (xs ! min (l1 + 1) (length xs - 1) - xs ! l1)"
  let ?v2 = "xs ! l2 + (h2 - rat_of_nat l2) * (xs ! min (l2 + 1) (length xs - 1) - xs ! l2)"
  have e1: "percentile p xs = ?v1"
    by (simp add: percentile_def Let_def m_def h1_def l1_def)
  have e2: "percentile q xs = ?v2"
    by (simp add: percentile_def Let_def m_def h2_def l2_def)
  have "?v1 \<le> ?v2"
  proof (cases "l1 = l2")
    case True
    let ?hi = "min (l2 + 1) (length xs - 1)"
    from l2_lt have "l2 \<le> ?hi" "?hi < length xs" by auto
    with srt have d: "0 \<le> xs ! ?hi - xs ! l2" by (simp add: sorted_nth_mono)
    from h12 have "h1 - rat_of_nat l2 \<le> h2 - rat_of_nat l2" by simp
    then have "(h1 - rat_of_nat l2) * (xs ! ?hi - xs ! l2)
                 \<le> (h2 - rat_of_nat l2) * (xs ! ?hi - xs ! l2)"
      using d by (rule mult_right_mono)
    with True show ?thesis by simp
  next
    case False
    with l12 have lt: "l1 + 1 \<le> l2" by simp
    with l2m len have hi1: "min (l1 + 1) (length xs - 1) = l1 + 1" by simp
    have "?v1 \<le> xs ! min (l1 + 1) (length xs - 1)"
      by (rule interp_between(2) [OF srt l1_lt f1_0 f1_1])
    also have "\<dots> = xs ! (l1 + 1)" by (simp only: hi1)
    also have "\<dots> \<le> xs ! l2" using srt lt l2_lt by (simp add: sorted_nth_mono)
    also have "\<dots> \<le> ?v2" by (rule interp_between(1) [OF srt l2_lt f2_0 f2_1])
    finally show ?thesis .
  qed
  with e1 e2 show ?thesis by simp
qed

lemma stat_at_Some:
  "stat_at p ss t = Some v \<Longrightarrow>
     concat (map (defined_at t) ss) \<noteq> []
   \<and> v = percentile p (sort (concat (map (defined_at t) ss)))"
  by (auto simp: stat_at_def Let_def split: if_splits)

lemma example_statistics:
  "compute_statistics example_series =
     \<lparr>p10 = [Some 11, Some 30, Some 15], p50 = [Some 15, Some 30, Some 15],
      p90 = [Some 19, Some 30, Some 15]\<rparr>"
  by code_simp

lemma example_timeline: "master_timeline example_series = [0, 30, 60]"
  by code_simp

text \<open>
  Claim C1. At every point of the master timeline where P10, P50 and P90 are all
  non-null, the computed statistics satisfy P10 \<open>\<le>\<close> P50 \<open>\<le>\<close> P90.
\<close>

theorem statistics_ordered:
  assumes i: "i < length (master_timeline ss)"
    and a: "p10 (compute_statistics ss) ! i = Some a"
    and b: "p50 (compute_statistics ss) ! i = Some b"
    and c: "p90 (compute_statistics ss) ! i = Some c"
  shows "a \<le> b \<and> b \<le> c"
proof -
  let ?t = "master_timeline ss ! i"
  let ?vs = "sort (concat (map (defined_at ?t) ss))"
  from i a have sa: "stat_at (1 / 10) ss ?t = Some a"
    by (simp add: compute_statistics_def Let_def)
  from i b have sb: "stat_at (1 / 2) ss ?t = Some b"
    by (simp add: compute_statistics_def Let_def)
  from i c have sc: "stat_at (9 / 10) ss ?t = Some c"
    by (simp add: compute_statistics_def Let_def)
  from stat_at_Some [OF sa] have ne0: "concat (map (defined_at ?t) ss) \<noteq> []"
    and va: "a = percentile (1 / 10) ?vs"
    by simp_all
  have "set ?vs = set (concat (map (defined_at ?t) ss))" by (rule set_sort)
  with ne0 have ne: "?vs \<noteq> []" by (metis set_empty)
  from stat_at_Some [OF sb] have vb: "b = percentile (1 / 2) ?vs" by simp
  from stat_at_Some [OF sc] have vc: "c = percentile (9 / 10) ?vs" by simp
  have srt: "sorted ?vs" by simp
  have "percentile (1 / 10) ?vs \<le> percentile (1 / 2) ?vs"
    by (rule percentile_mono [OF srt ne]) simp_all
  moreover have "percentile (1 / 2) ?vs \<le> percentile (9 / 10) ?vs"
    by (rule percentile_mono [OF srt ne]) simp_all
  ultimately show ?thesis using va vb vc by simp
qed

theorem statistics_ordered_witness:
  "0 < length (master_timeline example_series)
 \<and> p10 (compute_statistics example_series) ! 0 = Some 11
 \<and> p50 (compute_statistics example_series) ! 0 = Some 15
 \<and> p90 (compute_statistics example_series) ! 0 = Some 19
 \<and> (11::rat) \<le> 15 \<and> (15::rat) \<le> 19"
  using statistics_ordered [of 0 example_series 11 15 19]
  by (simp add: example_statistics example_timeline)

end
